theory Spec2Isabelle
  imports Complex_Main
begin

section \<open>Data model\<close>

text \<open>
  The client is a browser application. Its observable state is the browser's local
  storage, the session store read through \<open>useAuthStore\<close>, the router, the remote
  requests it issues, and what it shows (toasts, notifications). All of it is one
  record, \<open>world\<close>, which every operation takes and returns updated.

  JavaScript numbers are modelled as rationals: the operations used on them here are
  comparison and the whole-number test, which are exact on the values a form carries.
\<close>

type_synonym jsnum = rat

text \<open>
  Modelled from the spec: the \<open>User\<close> type of \<open>@/types/user\<close>, which is not among the
  sources. The code reads \<open>role\<close> and \<open>assignedBase\<close>; the spec lists identity, full
  name, email, role, optional assigned base and active flag.
\<close>

record User =
  user_id :: string
  fullName :: string
  email :: string
  role :: string
  assignedBase :: "string option"
  active :: bool

text \<open>
  Modelled from the spec: the \<open>Asset\<close> type of \<open>@/types/asset\<close>. The code reads
  \<open>_id\<close>, \<open>base\<close> and \<open>available\<close>.
\<close>

record Asset =
  asset_id :: string
  asset_name :: string
  asset_type :: string
  base :: string
  available :: jsnum

text \<open>
  A value thrown by a remote call. The only part of it the code inspects is
  \<open>error.response?.data?.error\<close>, which may be missing.
\<close>

datatype err = Err "string option"

text \<open>The response of \<open>authService.login\<close>: \<open>{token, user}\<close>.\<close>

record login_response =
  token :: string
  response_user :: User

text \<open>
  The values of the transfer form (\<open>formik.values\<close>). A number input that has been
  emptied is held by the form library as the empty string; that is \<open>None\<close> here.
  The field \<open>notes\<close> is \<open>form_notes\<close>, the former being reserved.
\<close>

record transfer_values =
  asset :: string
  fromBase :: string
  toBase :: string
  quantity :: "jsnum option"
  form_notes :: string

text \<open>The transfer returned by \<open>transferService.createTransfer\<close>, as far as the page reads it.\<close>

record Transfer =
  transfer_id :: string
  transfer_quantity :: jsnum
  assetName :: string

type_synonym userData = "(string \<times> string) list"

datatype nav = Replace string | Push string

datatype remote_call =
    AuthLogin string string
  | AuthLogout
  | AuthRegister userData
  | GetAssets nat
  | CreateTransfer transfer_values

text \<open>A template literal is kept as its fragments; an interpolated number is not rendered.\<close>

datatype frag = Txt string | Num jsnum

datatype toast = ToastError "frag list" | ToastSuccess "frag list"

record notification =
  ntype :: string
  title :: string
  message :: "frag list"

record world =
  localStorage :: "string \<rightharpoonup> string"
  user :: "User option"
  isAuthenticated :: bool
  isInitialized :: bool
  pathname :: string
  query_asset :: "string option"
  navigations :: "nav list"
  requests :: "remote_call list"
  toasts :: "toast list"
  notifications :: "notification list"
  isLoading :: bool
  isSubmitting :: bool
  availableAssets :: "Asset list"
  selectedAsset :: "Asset option"
  form_values :: transfer_values

section \<open>Primitive effects\<close>

definition removeItem :: "string \<Rightarrow> world \<Rightarrow> world" where
  "removeItem k w = w\<lparr>localStorage := (localStorage w)(k := None)\<rparr>"

definition setItem :: "string \<Rightarrow> string \<Rightarrow> world \<Rightarrow> world" where
  "setItem k v w = w\<lparr>localStorage := (localStorage w)(k \<mapsto> v)\<rparr>"

text \<open>
  Modelled from the spec: the setters of the session store \<open>@/stores/authStore\<close>, which
  is not among the sources. The spec has the store updated by simple assignment.
\<close>

definition setUser :: "User option \<Rightarrow> world \<Rightarrow> world" where
  "setUser u w = w\<lparr>user := u\<rparr>"

definition setIsAuthenticated :: "bool \<Rightarrow> world \<Rightarrow> world" where
  "setIsAuthenticated b w = w\<lparr>isAuthenticated := b\<rparr>"

definition setIsInitialized :: "bool \<Rightarrow> world \<Rightarrow> world" where
  "setIsInitialized b w = w\<lparr>isInitialized := b\<rparr>"

text \<open>
  A navigation request is recorded in order. It completes asynchronously, so
  \<open>pathname\<close> is not changed by the request itself.
\<close>

definition router_replace :: "string \<Rightarrow> world \<Rightarrow> world" where
  "router_replace p w = w\<lparr>navigations := navigations w @ [Replace p]\<rparr>"

definition router_push :: "string \<Rightarrow> world \<Rightarrow> world" where
  "router_push p w = w\<lparr>navigations := navigations w @ [Push p]\<rparr>"

definition request :: "remote_call \<Rightarrow> world \<Rightarrow> world" where
  "request c w = w\<lparr>requests := requests w @ [c]\<rparr>"

section \<open>The auth provider (\<open>contexts/AuthContext.tsx\<close>)\<close>

text \<open>
  \<open>initAuth\<close> is \<open>try { ... } catch { ... } finally { setIsInitialized(true) }\<close>. The
  body of the \<open>try\<close> returns either the world it reached, or the thrown value with the
  world at the throw. None of the effects modelled here throws, so the body always
  returns normally; the handler is kept as the source has it.
\<close>

definition initAuth_try :: "world \<Rightarrow> (err \<times> world) + world" where
  "initAuth_try w =
     (let w1 = removeItem ''token'' w;
          w2 = setUser None w1;
          w3 = setIsAuthenticated False w2
      in if pathname w3 \<noteq> ''/login'' \<and>
            pathname w3 \<noteq> ''/register'' \<and>
            pathname w3 \<noteq> ''/forgot-password''
         then Inr (router_replace ''/login'' w3)
         else Inr w3)"

definition initAuth_catch :: "err \<Rightarrow> world \<Rightarrow> world" where
  "initAuth_catch error w =
     setIsAuthenticated False (setUser None (removeItem ''token'' w))"

definition initAuth :: "world \<Rightarrow> world" where
  "initAuth w =
     setIsInitialized True
       (case initAuth_try w of
          Inr w' \<Rightarrow> w'
        | Inl (error, w') \<Rightarrow> initAuth_catch error w')"

text \<open>
  The effect \<open>if (isInitialized) return; initAuth();\<close>. The \<open>isInitialized\<close> it tests
  is the constant the component destructured from the store when it rendered, which the
  effect closes over: the first argument, \<open>captured\<close>. The store itself is not read
  again, so the closure of a render that saw an uninitialised store runs \<open>initAuth\<close>
  whenever it is invoked. \<open>initAuth\<close> is an async function without an \<open>await\<close>, so it
  runs to its end inside the effect.
\<close>

definition authInitEffect :: "bool \<Rightarrow> world \<Rightarrow> world" where
  "authInitEffect captured w = (if captured then w else initAuth w)"

text \<open>
  A mount of \<open>AuthProvider\<close>: the component renders, reading \<open>isInitialized\<close> from the
  store, and the effect of that render is then invoked. Its dependency list is \<open>[]\<close>,
  for which React invokes the effect once per mount.
\<close>

definition AuthProvider_mount :: "world \<Rightarrow> world" where
  "AuthProvider_mount w = authInitEffect (isInitialized w) w"

text \<open>
  \<open>login\<close>: the first argument is what the awaited \<open>authService.login(username,
  password)\<close> settles to. The result is what the returned promise settles to
  (\<open>Inl\<close>: rejected). The only failure modelled inside the \<open>try\<close> is that of the
  remote call; writing to local storage and to the store does not throw here.
\<close>

definition login ::
  "(err + login_response) \<Rightarrow> string \<Rightarrow> string \<Rightarrow> world \<Rightarrow> (err + User) \<times> world" where
  "login outcome username password w =
     (let w0 = request (AuthLogin username password) w
      in case outcome of
           Inr response \<Rightarrow>
             (let w1 = setItem ''token'' (token response) w0;
                  w2 = setUser (Some (response_user response)) w1;
                  w3 = setIsAuthenticated True w2
              in (Inr (response_user response), w3))
         | Inl error \<Rightarrow>
             (let w1 = removeItem ''token'' w0;
                  w2 = setUser None w1;
                  w3 = setIsAuthenticated False w2
              in (Inl error, w3)))"

text \<open>
  \<open>logout\<close>: \<open>try { await authService.logout() } catch { log } finally { clear;
  redirect }\<close>. The handler only logs, so both outcomes continue into \<open>finally\<close>.
\<close>

definition logout :: "(err + unit) \<Rightarrow> world \<Rightarrow> (err + unit) \<times> world" where
  "logout outcome w =
     (let w0 = request AuthLogout w;
          w1 = (case outcome of Inr _ \<Rightarrow> w0 | Inl error \<Rightarrow> w0);
          w2 = removeItem ''token'' w1;
          w3 = setUser None w2;
          w4 = setIsAuthenticated False w3
      in (Inr (), router_replace ''/login'' w4))"

text \<open>\<open>register\<close>: the call of \<open>authService.register\<close> is commented out in the source.\<close>

definition register :: "userData \<Rightarrow> world \<Rightarrow> (err + unit) \<times> world" where
  "register data w = (Inr (), router_push ''/login'' w)"

subsection \<open>Runs of the auth provider\<close>

datatype auth_event =
    EvMount
  | EvLogin "err + login_response" string string
  | EvLogout "err + unit"
  | EvRegister userData

fun auth_step :: "world \<Rightarrow> auth_event \<Rightarrow> world" where
  "auth_step w EvMount = AuthProvider_mount w"
| "auth_step w (EvLogin outcome username password) = snd (login outcome username password w)"
| "auth_step w (EvLogout outcome) = snd (logout outcome w)"
| "auth_step w (EvRegister data) = snd (register data w)"

definition auth_run :: "world \<Rightarrow> auth_event list \<Rightarrow> world" where
  "auth_run w evs = foldl auth_step w evs"

fun login_succeeded :: "auth_event \<Rightarrow> bool" where
  "login_succeeded (EvLogin (Inr response) username password) = True"
| "login_succeeded ev = False"

text \<open>The session is cleared: no token stored, no user, not authenticated.\<close>

definition session_cleared :: "world \<Rightarrow> bool" where
  "session_cleared w \<longleftrightarrow>
     localStorage w ''token'' = None \<and> user w = None \<and> \<not> isAuthenticated w"

text \<open>The session invariant of the data model.\<close>

definition session_inv :: "world \<Rightarrow> bool" where
  "session_inv w \<longleftrightarrow> (isAuthenticated w \<longrightarrow> user w \<noteq> None)"

text \<open>
  What a mutation of the session leaves behind: a user together with the flag, or neither.
\<close>

definition session_paired :: "world \<Rightarrow> bool" where
  "session_paired w \<longleftrightarrow>
     (user w \<noteq> None \<and> isAuthenticated w) \<or> (user w = None \<and> \<not> isAuthenticated w)"

section \<open>The transfer page (\<open>pages/transfers/new.tsx\<close>)\<close>

definition setIsLoading :: "bool \<Rightarrow> world \<Rightarrow> world" where
  "setIsLoading b w = w\<lparr>isLoading := b\<rparr>"

definition setIsSubmitting :: "bool \<Rightarrow> world \<Rightarrow> world" where
  "setIsSubmitting b w = w\<lparr>isSubmitting := b\<rparr>"

definition setAvailableAssets :: "Asset list \<Rightarrow> world \<Rightarrow> world" where
  "setAvailableAssets xs w = w\<lparr>availableAssets := xs\<rparr>"

definition setSelectedAsset :: "Asset option \<Rightarrow> world \<Rightarrow> world" where
  "setSelectedAsset a w = w\<lparr>selectedAsset := a\<rparr>"

text \<open>\<open>formik.setFieldValue(field, value)\<close>, the field given by its update.\<close>

definition setFieldValue :: "(transfer_values \<Rightarrow> transfer_values) \<Rightarrow> world \<Rightarrow> world" where
  "setFieldValue upd w = w\<lparr>form_values := upd (form_values w)\<rparr>"

definition toast_error :: "frag list \<Rightarrow> world \<Rightarrow> world" where
  "toast_error m w = w\<lparr>toasts := toasts w @ [ToastError m]\<rparr>"

definition toast_success :: "frag list \<Rightarrow> world \<Rightarrow> world" where
  "toast_success m w = w\<lparr>toasts := toasts w @ [ToastSuccess m]\<rparr>"

definition addNotification :: "notification \<Rightarrow> world \<Rightarrow> world" where
  "addNotification n w = w\<lparr>notifications := notifications w @ [n]\<rparr>"

subsection \<open>The validation schema\<close>

text \<open>
  A failed rule is reported with the message the schema gives it; a value that is not a
  number fails with the library's own type error.
\<close>

datatype failure = Message string | TypeError

text \<open>\<open>Number.isInteger\<close>, which \<open>.integer(...)\<close> tests.\<close>

definition isInteger :: "jsnum \<Rightarrow> bool" where
  "isInteger q \<longleftrightarrow> of_int \<lfloor>q\<rfloor> = q"

text \<open>
  \<open>TransferSchema\<close> lists, by field, every rule of the schema that the values fail. A
  string field fails \<open>required\<close> when it is empty; \<open>notOneOf([Yup.ref('fromBase')])\<close>
  fails when \<open>toBase\<close> is the value of \<open>fromBase\<close>. The form is valid when the list
  is empty; which of a field's failures is displayed first is not modelled.
\<close>

definition TransferSchema :: "transfer_values \<Rightarrow> (string \<times> failure) list" where
  "TransferSchema v =
     (if asset v = [] then [(''asset'', Message ''Asset is required'')] else []) @
     (if fromBase v = [] then [(''fromBase'', Message ''From Base is required'')] else []) @
     (if toBase v = [] then [(''toBase'', Message ''To Base is required'')] else []) @
     (if toBase v = fromBase v
      then [(''toBase'', Message ''To Base must be different from From Base'')] else []) @
     (case quantity v of
        None \<Rightarrow> [(''quantity'', TypeError)]
      | Some q \<Rightarrow>
          (if \<not> 0 < q then [(''quantity'', Message ''Quantity must be positive'')] else []) @
          (if \<not> isInteger q
           then [(''quantity'', Message ''Quantity must be a whole number'')] else []))"

definition isValid :: "transfer_values \<Rightarrow> bool" where
  "isValid v \<longleftrightarrow> TransferSchema v = []"

subsection \<open>Loading and selecting assets\<close>

text \<open>\<open>initialValues\<close> of the form; \<open>x || ''\<close> and \<open>x ? x : ''\<close> give \<open>''\<close> for a missing \<open>x\<close>.\<close>

definition initialValues :: "world \<Rightarrow> transfer_values" where
  "initialValues w =
     \<lparr>asset = (case query_asset w of Some assetId \<Rightarrow> assetId | None \<Rightarrow> []),
      fromBase =
        (case user w of
           Some u \<Rightarrow>
             (if role u = ''LogisticsOfficer''
              then (case assignedBase u of Some b \<Rightarrow> b | None \<Rightarrow> [])
              else [])
         | None \<Rightarrow> []),
      toBase = [],
      quantity = Some 1,
      form_notes = []\<rparr>"

text \<open>The two client-side filters of \<open>fetchAssets\<close>.\<close>

definition filterAssets :: "User option \<Rightarrow> Asset list \<Rightarrow> Asset list" where
  "filterAssets u assets =
     (let filteredAssets =
        (case u of
           Some usr \<Rightarrow>
             (case assignedBase usr of
                Some b \<Rightarrow>
                  if role usr = ''LogisticsOfficer'' \<and> b \<noteq> []
                  then filter (\<lambda>a. base a = b) assets
                  else assets
              | None \<Rightarrow> assets)
         | None \<Rightarrow> assets)
      in filter (\<lambda>a. 0 < available a) filteredAssets)"

text \<open>
  \<open>fetchAssets\<close>; the first argument is what \<open>assetService.getAssets({limit: 100})\<close>
  settles to.
\<close>

definition fetchAssets :: "(err + Asset list) \<Rightarrow> world \<Rightarrow> world" where
  "fetchAssets outcome w =
     (let w0 = request (GetAssets 100) (setIsLoading True w);
          w1 =
            (case outcome of
               Inr assets \<Rightarrow>
                 (let filteredAssets = filterAssets (user w0) assets;
                      w' = setAvailableAssets filteredAssets w0
                  in case query_asset w' of
                       Some assetId \<Rightarrow>
                         (if assetId \<noteq> []
                          then (case find (\<lambda>a. asset_id a = assetId) filteredAssets of
                                  Some a \<Rightarrow>
                                    setFieldValue (\<lambda>v. v\<lparr>fromBase := base a\<rparr>)
                                      (setFieldValue (\<lambda>v. v\<lparr>asset := asset_id a\<rparr>)
                                        (setSelectedAsset (Some a) w'))
                                | None \<Rightarrow> w')
                          else w')
                     | None \<Rightarrow> w')
             | Inl error \<Rightarrow> toast_error [Txt ''Failed to load assets''] w0)
      in setIsLoading False w1)"

definition fetchAssetsEffect :: "(err + Asset list) \<Rightarrow> world \<Rightarrow> world" where
  "fetchAssetsEffect outcome w = (if user w \<noteq> None then fetchAssets outcome w else w)"

text \<open>The effect that follows \<open>formik.values.asset\<close> and \<open>availableAssets\<close>.\<close>

definition selectedAssetEffect :: "world \<Rightarrow> world" where
  "selectedAssetEffect w =
     (let found = find (\<lambda>a. asset_id a = asset (form_values w)) (availableAssets w);
          w1 = setSelectedAsset found w
      in case found of
           Some a \<Rightarrow> setFieldValue (\<lambda>v. v\<lparr>fromBase := base a\<rparr>) w1
         | None \<Rightarrow> w1)"

subsection \<open>Submission\<close>

text \<open>
  The number a form quantity compares as: \<open>'' > n\<close> converts the empty string to \<open>0\<close>.
\<close>

definition to_number :: "jsnum option \<Rightarrow> jsnum" where
  "to_number x = (case x of Some q \<Rightarrow> q | None \<Rightarrow> 0)"

text \<open>\<open>error.response?.data?.error || 'Failed to create transfer'\<close>.\<close>

definition error_message :: "err \<Rightarrow> string" where
  "error_message e =
     (case e of
        Err (Some m) \<Rightarrow> if m \<noteq> [] then m else ''Failed to create transfer''
      | Err None \<Rightarrow> ''Failed to create transfer'')"

text \<open>
  The rest of the \<open>try\<close> block of \<open>onSubmit\<close> after the availability check; the first
  argument is what \<open>transferService.createTransfer(values)\<close> settles to.
\<close>

definition onSubmit_create :: "(err + Transfer) \<Rightarrow> transfer_values \<Rightarrow> world \<Rightarrow> world" where
  "onSubmit_create outcome vals w =
     (let w0 = request (CreateTransfer vals) w
      in case outcome of
           Inr newTransfer \<Rightarrow>
             (let w1 = addNotification
                         \<lparr>ntype = ''success'',
                          title = ''Transfer Created'',
                          message = [Txt ''Transfer of '', Num (transfer_quantity newTransfer),
                                     Txt '' '', Txt (assetName newTransfer),
                                     Txt '' has been created and is pending approval.'']\<rparr> w0;
                  w2 = toast_success [Txt ''Transfer created successfully''] w1
              in router_push (''/transfers/'' @ transfer_id newTransfer) w2)
         | Inl error \<Rightarrow> toast_error [Txt (error_message error)] w0)"

text \<open>
  \<open>onSubmit\<close>: the check \<open>selectedAsset && values.quantity > selectedAsset.available\<close>,
  then the creation; \<open>finally\<close> resets \<open>isSubmitting\<close> on every path.
\<close>

definition onSubmit :: "(err + Transfer) \<Rightarrow> transfer_values \<Rightarrow> world \<Rightarrow> world" where
  "onSubmit outcome vals w =
     (let w0 = setIsSubmitting True w;
          w1 =
            (case selectedAsset w0 of
               Some sel \<Rightarrow>
                 if available sel < to_number (quantity vals)
                 then setIsSubmitting False
                        (toast_error
                           [Txt ''Cannot transfer more than available quantity ('',
                            Num (available sel), Txt '')''] w0)
                 else onSubmit_create outcome vals w0
             | None \<Rightarrow> onSubmit_create outcome vals w0)
      in setIsSubmitting False w1)"

text \<open>
  \<open>formik.handleSubmit\<close>: the form library validates the values against the schema and
  calls \<open>onSubmit\<close> only when there is no error.
\<close>

definition handleSubmit :: "(err + Transfer) \<Rightarrow> world \<Rightarrow> world" where
  "handleSubmit outcome w =
     (if isValid (form_values w) then onSubmit outcome (form_values w) w else w)"

section \<open>Concrete worlds\<close>

text \<open>A user, two assets of the remote inventory, and worlds used to run the model.\<close>

definition alice :: User where
  "alice = \<lparr>user_id = ''u1'', fullName = ''Alice Doe'', email = ''alice@example.org'',
            role = ''Admin'', assignedBase = None, active = True\<rparr>"

definition rifles :: Asset where
  "rifles = \<lparr>asset_id = ''a1'', asset_name = ''Rifle'', asset_type = ''Weapon'',
             base = ''Base Alpha'', available = 3\<rparr>"

definition trucks :: Asset where
  "trucks = \<lparr>asset_id = ''a2'', asset_name = ''Truck'', asset_type = ''Vehicle'',
             base = ''Base Alpha'', available = 0\<rparr>"

definition blank_values :: transfer_values where
  "blank_values =
     \<lparr>asset = [], fromBase = [], toBase = [], quantity = Some 1, form_notes = []\<rparr>"

text \<open>A load on a protected route, with a token left in local storage by an earlier visit.\<close>

definition load_world :: world where
  "load_world =
     \<lparr>localStorage = [''token'' \<mapsto> ''stale''], user = None, isAuthenticated = False,
      isInitialized = False, pathname = ''/transfers/new'', query_asset = None,
      navigations = [], requests = [], toasts = [], notifications = [],
      isLoading = True, isSubmitting = False, availableAssets = [],
      selectedAsset = None, form_values = blank_values\<rparr>"

text \<open>The same load after \<open>alice\<close> has logged in.\<close>

definition alice_world :: world where
  "alice_world =
     snd (login (Inr \<lparr>token = ''t1'', response_user = alice\<rparr>) ''alice'' ''secret''
            (AuthProvider_mount load_world))"

text \<open>
  The transfer page opened by \<open>alice\<close> with \<open>?asset=assetId\<close>: the form starts from
  \<open>initialValues\<close>, the assets \<open>rifles\<close> and \<open>trucks\<close> are fetched, the selection
  effect runs, and then the bases and the quantity \<open>q\<close> are entered. \<open>trucks\<close> has
  nothing available, so the fetch filters it out and \<open>?asset=a2\<close> selects no asset.
\<close>

definition transfer_page :: "string \<Rightarrow> jsnum \<Rightarrow> world" where
  "transfer_page assetId q =
     (let w0 = alice_world\<lparr>query_asset := Some assetId\<rparr>;
          w1 = w0\<lparr>form_values := initialValues w0\<rparr>;
          w2 = selectedAssetEffect (fetchAssetsEffect (Inr [rifles, trucks]) w1)
      in setFieldValue
           (\<lambda>v. v\<lparr>fromBase := ''Base Alpha'', toBase := ''Base Bravo'', quantity := Some q\<rparr>)
           w2)"

section \<open>Evaluating the model\<close>

lemmas auth_defs =
  removeItem_def setItem_def setUser_def setIsAuthenticated_def setIsInitialized_def
  router_replace_def router_push_def request_def initAuth_try_def initAuth_catch_def
  initAuth_def authInitEffect_def AuthProvider_mount_def login_def logout_def register_def
  Let_def

lemmas page_defs =
  setIsLoading_def setIsSubmitting_def setAvailableAssets_def setSelectedAsset_def
  setFieldValue_def toast_error_def toast_success_def addNotification_def isInteger_def
  TransferSchema_def isValid_def initialValues_def filterAssets_def fetchAssets_def
  fetchAssetsEffect_def selectedAssetEffect_def to_number_def error_message_def
  onSubmit_create_def onSubmit_def handleSubmit_def request_def Let_def

lemma alice_world_eval:
  "alice_world =
     \<lparr>localStorage = [''token'' \<mapsto> ''t1''], user = Some alice, isAuthenticated = True,
      isInitialized = True, pathname = ''/transfers/new'', query_asset = None,
      navigations = [Replace ''/login''], requests = [AuthLogin ''alice'' ''secret''],
      toasts = [], notifications = [], isLoading = True, isSubmitting = False,
      availableAssets = [], selectedAsset = None, form_values = blank_values\<rparr>"
  by (simp add: alice_world_def load_world_def auth_defs)

lemma transfer_page_a1_eval:
  "transfer_page ''a1'' 5 =
     \<lparr>localStorage = [''token'' \<mapsto> ''t1''], user = Some alice, isAuthenticated = True,
      isInitialized = True, pathname = ''/transfers/new'', query_asset = Some ''a1'',
      navigations = [Replace ''/login''],
      requests = [AuthLogin ''alice'' ''secret'', GetAssets 100],
      toasts = [], notifications = [], isLoading = False, isSubmitting = False,
      availableAssets = [rifles], selectedAsset = Some rifles,
      form_values = \<lparr>asset = ''a1'', fromBase = ''Base Alpha'', toBase = ''Base Bravo'',
                      quantity = Some 5, form_notes = []\<rparr>\<rparr>"
  by (simp add: transfer_page_def alice_world_eval page_defs alice_def rifles_def trucks_def)

lemma transfer_page_a2_eval:
  "transfer_page ''a2'' 1 =
     \<lparr>localStorage = [''token'' \<mapsto> ''t1''], user = Some alice, isAuthenticated = True,
      isInitialized = True, pathname = ''/transfers/new'', query_asset = Some ''a2'',
      navigations = [Replace ''/login''],
      requests = [AuthLogin ''alice'' ''secret'', GetAssets 100],
      toasts = [], notifications = [], isLoading = False, isSubmitting = False,
      availableAssets = [rifles], selectedAsset = None,
      form_values = \<lparr>asset = ''a2'', fromBase = ''Base Alpha'', toBase = ''Base Bravo'',
                      quantity = Some 1, form_notes = []\<rparr>\<rparr>"
  by (simp add: transfer_page_def alice_world_eval page_defs alice_def rifles_def trucks_def)

section \<open>Properties of the auth provider\<close>

lemma initAuth_cleared: "session_cleared (initAuth w)"
  by (simp add: session_cleared_def initAuth_def initAuth_try_def Let_def removeItem_def
      setUser_def setIsAuthenticated_def setIsInitialized_def router_replace_def)

lemma mount_cleared: "\<not> isInitialized w \<Longrightarrow> session_cleared (AuthProvider_mount w)"
  by (simp add: AuthProvider_mount_def authInitEffect_def initAuth_cleared)

lemma mount_initialized: "isInitialized (AuthProvider_mount w)"
  by (simp add: AuthProvider_mount_def authInitEffect_def initAuth_def setIsInitialized_def)

lemma mount_skipped: "isInitialized w \<Longrightarrow> AuthProvider_mount w = w"
  by (simp add: AuthProvider_mount_def authInitEffect_def)

text \<open>
  The guard is on the captured value only: invoked a second time, the closure of an
  uninitialised render runs \<open>initAuth\<close> again. It is the one invocation per mount that
  keeps this from happening.
\<close>

lemma authInitEffect_closure_rerun:
  "authInitEffect False (authInitEffect False w) = initAuth (initAuth w)"
  by (simp add: authInitEffect_def)

lemma login_failed_cleared: "session_cleared (snd (login (Inl error) username password w))"
  by (simp add: login_def Let_def session_cleared_def removeItem_def setUser_def
      setIsAuthenticated_def request_def)

lemma logout_cleared: "session_cleared (snd (logout outcome w))"
  by (simp add: logout_def Let_def session_cleared_def removeItem_def setUser_def
      setIsAuthenticated_def request_def router_replace_def)

lemma register_session:
  "localStorage (snd (register data w)) = localStorage w"
  "user (snd (register data w)) = user w"
  "isAuthenticated (snd (register data w)) = isAuthenticated w"
  by (simp_all add: register_def router_push_def)

lemma auth_step_cleared:
  assumes "session_cleared w" and "\<not> login_succeeded ev"
  shows "session_cleared (auth_step w ev)"
proof (cases ev)
  case EvMount
  then show ?thesis using assms(1)
    by (simp add: AuthProvider_mount_def authInitEffect_def initAuth_cleared)
next
  case (EvLogin outcome username password)
  then show ?thesis using assms(2) by (cases outcome) (simp_all add: login_failed_cleared)
next
  case (EvLogout outcome)
  then show ?thesis by (simp add: logout_cleared)
next
  case (EvRegister data)
  then show ?thesis using assms(1) by (simp add: session_cleared_def register_session)
qed

lemma auth_run_cleared:
  "session_cleared w \<Longrightarrow> \<not> list_ex login_succeeded evs \<Longrightarrow>
   session_cleared (auth_run w evs)"
  unfolding auth_run_def
  by (induction evs arbitrary: w) (simp_all add: auth_step_cleared)

text \<open>
  C1. An application load is a world whose session store has not been initialised. After
  the provider has mounted on it and its initialization effect has run, and after any
  further auth operations among which no login has succeeded (failed logins, logouts,
  registrations, further mounts),
  \<open>isAuthenticated\<close> is false and local storage has no \<open>token\<close> entry.
\<close>

theorem init_then_unauthenticated_until_login:
  assumes "\<not> isInitialized w" and "\<not> list_ex login_succeeded evs"
  shows "\<not> isAuthenticated (auth_run (AuthProvider_mount w) evs) \<and>
         localStorage (auth_run (AuthProvider_mount w) evs) ''token'' = None"
  using auth_run_cleared [OF mount_cleared [OF assms(1)] assms(2)]
  by (simp add: session_cleared_def)

theorem init_then_unauthenticated_until_login_witness:
  "\<not> isInitialized load_world \<and>
   \<not> list_ex login_succeeded
       [EvRegister [], EvLogin (Inl (Err None)) ''bob'' ''secret'', EvLogout (Inr ())] \<and>
   \<not> isAuthenticated
      (auth_run (AuthProvider_mount load_world)
         [EvRegister [], EvLogin (Inl (Err None)) ''bob'' ''secret'', EvLogout (Inr ())]) \<and>
   localStorage
      (auth_run (AuthProvider_mount load_world)
         [EvRegister [], EvLogin (Inl (Err None)) ''bob'' ''secret'', EvLogout (Inr ())])
      ''token'' = None"
  using init_then_unauthenticated_until_login
    [of load_world "[EvRegister [], EvLogin (Inl (Err None)) ''bob'' ''secret'', EvLogout (Inr ())]"]
  by (simp add: load_world_def)

text \<open>
  C2. A login whose remote call succeeds with \<open>{token, user}\<close> resolves to that user,
  stores exactly that token under \<open>token\<close> (no other key changes), makes that user the
  current user and marks the session authenticated.
\<close>

theorem login_success_stores_session:
  "fst (login (Inr response) username password w) = Inr (response_user response) \<and>
   localStorage (snd (login (Inr response) username password w)) =
     (localStorage w)(''token'' \<mapsto> token response) \<and>
   user (snd (login (Inr response) username password w)) = Some (response_user response) \<and>
   isAuthenticated (snd (login (Inr response) username password w))"
  by (simp add: login_def Let_def setItem_def setUser_def setIsAuthenticated_def request_def)

theorem login_success_stores_session_witness:
  "fst (login (Inr \<lparr>token = ''t1'', response_user = alice\<rparr>) ''alice'' ''secret'' load_world)
     = Inr alice \<and>
   localStorage (snd (login (Inr \<lparr>token = ''t1'', response_user = alice\<rparr>) ''alice'' ''secret''
     load_world)) ''token'' = Some ''t1'' \<and>
   user (snd (login (Inr \<lparr>token = ''t1'', response_user = alice\<rparr>) ''alice'' ''secret''
     load_world)) = Some alice \<and>
   isAuthenticated (snd (login (Inr \<lparr>token = ''t1'', response_user = alice\<rparr>) ''alice''
     ''secret'' load_world))"
  using login_success_stores_session
    [of "\<lparr>token = ''t1'', response_user = alice\<rparr>" "''alice''" "''secret''" load_world]
  by simp

text \<open>
  C3. A login whose remote call fails rejects with the same failure, and leaves no token
  in local storage, no current user and \<open>isAuthenticated\<close> false.
\<close>

theorem login_failure_clears_and_rejects:
  "fst (login (Inl error) username password w) = Inl error \<and>
   localStorage (snd (login (Inl error) username password w)) ''token'' = None \<and>
   user (snd (login (Inl error) username password w)) = None \<and>
   \<not> isAuthenticated (snd (login (Inl error) username password w))"
  using login_failed_cleared [of error username password w]
  by (simp add: session_cleared_def) (simp add: login_def Let_def)

theorem login_failure_clears_and_rejects_witness:
  "localStorage alice_world ''token'' = Some ''t1'' \<and>
   isAuthenticated alice_world \<and>
   fst (login (Inl (Err (Some ''Invalid credentials''))) ''alice'' ''wrong'' alice_world)
     = Inl (Err (Some ''Invalid credentials'')) \<and>
   localStorage (snd (login (Inl (Err (Some ''Invalid credentials''))) ''alice'' ''wrong''
     alice_world)) ''token'' = None \<and>
   user (snd (login (Inl (Err (Some ''Invalid credentials''))) ''alice'' ''wrong''
     alice_world)) = None \<and>
   \<not> isAuthenticated (snd (login (Inl (Err (Some ''Invalid credentials''))) ''alice'' ''wrong''
     alice_world))"
  using login_failure_clears_and_rejects
    [of "Err (Some ''Invalid credentials'')" "''alice''" "''wrong''" alice_world]
  by (simp add: alice_world_eval)

text \<open>
  C4. A logout, whether its remote call succeeds or fails, resolves (the failure is not
  passed on), and leaves no token in local storage, no current user, \<open>isAuthenticated\<close>
  false, and a redirect to \<open>/login\<close> as the last navigation.
\<close>

theorem logout_always_clears_and_redirects:
  "fst (logout outcome w) = Inr () \<and>
   localStorage (snd (logout outcome w)) ''token'' = None \<and>
   user (snd (logout outcome w)) = None \<and>
   \<not> isAuthenticated (snd (logout outcome w)) \<and>
   navigations (snd (logout outcome w)) = navigations w @ [Replace ''/login'']"
  using logout_cleared [of outcome w]
  by (simp add: session_cleared_def)
     (simp add: logout_def Let_def removeItem_def setUser_def setIsAuthenticated_def
        request_def router_replace_def)

theorem logout_always_clears_and_redirects_witness:
  "localStorage alice_world ''token'' = Some ''t1'' \<and>
   isAuthenticated alice_world \<and>
   fst (logout (Inl (Err None)) alice_world) = Inr () \<and>
   localStorage (snd (logout (Inl (Err None)) alice_world)) ''token'' = None \<and>
   user (snd (logout (Inl (Err None)) alice_world)) = None \<and>
   \<not> isAuthenticated (snd (logout (Inl (Err None)) alice_world)) \<and>
   navigations (snd (logout (Inl (Err None)) alice_world)) =
     [Replace ''/login'', Replace ''/login'']"
  using logout_always_clears_and_redirects [of "Inl (Err None)" alice_world]
  by (simp add: alice_world_eval)

lemma auth_step_initialized: "isInitialized w \<Longrightarrow> isInitialized (auth_step w ev)"
proof (cases ev)
  case EvMount
  then show ?thesis by (simp add: mount_initialized)
next
  case (EvLogin outcome username password)
  assume "isInitialized w"
  then show ?thesis using EvLogin
    by (cases outcome)
       (simp_all add: login_def Let_def setItem_def removeItem_def setUser_def
          setIsAuthenticated_def request_def)
next
  case (EvLogout outcome)
  assume "isInitialized w"
  then show ?thesis using EvLogout
    by (simp add: logout_def Let_def removeItem_def setUser_def setIsAuthenticated_def
        request_def router_replace_def)
next
  case (EvRegister data)
  assume "isInitialized w"
  then show ?thesis using EvRegister by (simp add: register_def router_push_def)
qed

lemma auth_run_initialized: "isInitialized w \<Longrightarrow> isInitialized (auth_run w evs)"
  unfolding auth_run_def
  by (induction evs arbitrary: w) (simp_all add: auth_step_initialized)

text \<open>
  C5. When the provider mounts on a load (store not yet initialised) its effect removes
  the stored token, resets the session to unauthenticated with no user, sets
  \<open>isInitialized\<close>, and requests a redirect to \<open>/login\<close> exactly when the current route
  is none of \<open>/login\<close>, \<open>/register\<close>, \<open>/forgot-password\<close>. The guard: an effect whose
  render saw \<open>isInitialized\<close> set leaves every world as it is, whatever the session
  holds. At most once per load: no auth operation resets \<open>isInitialized\<close>, so after a
  first mount and any run of logins, logouts, registrations and further mounts, one more
  mount changes nothing.
\<close>

theorem init_once_clears_and_redirects:
  assumes "\<not> isInitialized w"
  shows "localStorage (AuthProvider_mount w) ''token'' = None \<and>
         user (AuthProvider_mount w) = None \<and>
         \<not> isAuthenticated (AuthProvider_mount w) \<and>
         isInitialized (AuthProvider_mount w) \<and>
         navigations (AuthProvider_mount w) =
           (if pathname w \<in> {''/login'', ''/register'', ''/forgot-password''}
            then navigations w else navigations w @ [Replace ''/login'']) \<and>
         authInitEffect True v = v \<and>
         isInitialized (auth_run (AuthProvider_mount w) evs) \<and>
         AuthProvider_mount (auth_run (AuthProvider_mount w) evs) =
           auth_run (AuthProvider_mount w) evs"
proof -
  have first: "AuthProvider_mount w = initAuth w"
    using assms by (simp add: AuthProvider_mount_def authInitEffect_def)
  have later: "isInitialized (auth_run (AuthProvider_mount w) evs)"
    by (rule auth_run_initialized [OF mount_initialized])
  have "localStorage (initAuth w) ''token'' = None \<and>
        user (initAuth w) = None \<and>
        \<not> isAuthenticated (initAuth w) \<and>
        isInitialized (initAuth w) \<and>
        navigations (initAuth w) =
          (if pathname w \<in> {''/login'', ''/register'', ''/forgot-password''}
           then navigations w else navigations w @ [Replace ''/login''])"
    by (simp add: initAuth_def initAuth_try_def Let_def removeItem_def setUser_def
        setIsAuthenticated_def setIsInitialized_def router_replace_def)
  moreover have "authInitEffect True v = v"
    by (simp add: authInitEffect_def)
  ultimately show ?thesis
    using later mount_skipped [OF later] by (simp add: first)
qed

theorem init_once_clears_and_redirects_witness:
  "\<not> isInitialized load_world \<and>
   localStorage load_world ''token'' = Some ''stale'' \<and>
   pathname load_world = ''/transfers/new'' \<and>
   localStorage (AuthProvider_mount load_world) ''token'' = None \<and>
   user (AuthProvider_mount load_world) = None \<and>
   \<not> isAuthenticated (AuthProvider_mount load_world) \<and>
   isInitialized (AuthProvider_mount load_world) \<and>
   navigations (AuthProvider_mount load_world) = [Replace ''/login''] \<and>
   navigations (AuthProvider_mount (load_world\<lparr>pathname := ''/register''\<rparr>)) = [] \<and>
   authInitEffect True alice_world = alice_world \<and>
   auth_run (AuthProvider_mount load_world)
     [EvLogin (Inr \<lparr>token = ''t1'', response_user = alice\<rparr>) ''alice'' ''secret'']
     = alice_world \<and>
   isAuthenticated alice_world \<and>
   AuthProvider_mount alice_world = alice_world"
proof -
  have fresh: "\<not> isInitialized load_world"
    and stale: "localStorage load_world ''token'' = Some ''stale''"
    and route: "pathname load_world = ''/transfers/new''"
    and navs: "navigations load_world = []"
    by (simp_all add: load_world_def)
  have fresh': "\<not> isInitialized (load_world\<lparr>pathname := ''/register''\<rparr>)"
    using fresh by simp
  have run: "auth_run (AuthProvider_mount load_world)
               [EvLogin (Inr \<lparr>token = ''t1'', response_user = alice\<rparr>) ''alice'' ''secret'']
             = alice_world"
    by (simp add: auth_run_def alice_world_def)
  have authd: "isAuthenticated alice_world"
    by (simp add: alice_world_eval)
  show ?thesis
    using init_once_clears_and_redirects
            [OF fresh, of alice_world
               "[EvLogin (Inr \<lparr>token = ''t1'', response_user = alice\<rparr>) ''alice'' ''secret'']"]
          init_once_clears_and_redirects [OF fresh']
          fresh stale route navs authd
    by (simp add: run)
qed

text \<open>
  C8. \<open>register\<close> resolves, requests a navigation to \<open>/login\<close> and changes nothing else:
  in particular it issues no remote request, so no account is created.
\<close>

theorem register_only_navigates:
  "fst (register data w) = Inr () \<and>
   snd (register data w) = w\<lparr>navigations := navigations w @ [Push ''/login'']\<rparr> \<and>
   requests (snd (register data w)) = requests w"
  by (simp add: register_def router_push_def)

theorem register_only_navigates_witness:
  "fst (register [(''username'', ''bob'')] load_world) = Inr () \<and>
   navigations (snd (register [(''username'', ''bob'')] load_world)) = [Push ''/login''] \<and>
   requests (snd (register [(''username'', ''bob'')] load_world)) = []"
  using register_only_navigates [of "[(''username'', ''bob'')]" load_world]
  by (simp add: load_world_def)

lemma cleared_paired: "session_cleared w \<Longrightarrow> session_paired w"
  by (simp add: session_cleared_def session_paired_def)

lemma paired_inv: "session_paired w \<Longrightarrow> session_inv w"
  by (auto simp add: session_inv_def session_paired_def)

lemma login_paired: "session_paired (snd (login outcome username password w))"
  by (cases outcome)
     (simp_all add: login_def Let_def session_paired_def setItem_def removeItem_def setUser_def
        setIsAuthenticated_def request_def)

lemma auth_step_inv:
  assumes "session_inv w"
  shows "session_inv (auth_step w ev)"
proof (cases ev)
  case EvMount
  have "session_inv (initAuth w)"
    by (rule paired_inv [OF cleared_paired [OF initAuth_cleared]])
  then show ?thesis using EvMount assms
    by (simp add: AuthProvider_mount_def authInitEffect_def)
next
  case (EvLogin outcome username password)
  then show ?thesis by (simp add: login_paired paired_inv)
next
  case (EvLogout outcome)
  then show ?thesis by (simp add: logout_cleared cleared_paired paired_inv)
next
  case (EvRegister data)
  then show ?thesis using assms by (simp add: session_inv_def register_session)
qed

lemma auth_run_inv: "session_inv w \<Longrightarrow> session_inv (auth_run w evs)"
  unfolding auth_run_def
  by (induction evs arbitrary: w) (simp_all add: auth_step_inv)

text \<open>
  C9. Initialization (when it runs), login with either outcome and logout with either
  outcome each leave either a user with \<open>isAuthenticated\<close> true, or no user with
  \<open>isAuthenticated\<close> false; and the invariant "\<open>isAuthenticated\<close> only while a user is
  present" is kept by every run of auth operations.
\<close>

theorem session_invariant_kept:
  "(\<not> isInitialized w \<longrightarrow> session_paired (AuthProvider_mount w)) \<and>
   session_paired (snd (login outcome username password w)) \<and>
   session_paired (snd (logout lo w)) \<and>
   (session_inv w \<longrightarrow> session_inv (auth_run w evs))"
  by (simp add: mount_cleared cleared_paired login_paired logout_cleared auth_run_inv)

theorem session_invariant_kept_witness:
  "\<not> isInitialized load_world \<and> session_inv load_world \<and>
   session_paired (AuthProvider_mount load_world) \<and>
   session_paired (snd (login (Inr \<lparr>token = ''t1'', response_user = alice\<rparr>) ''alice'' ''secret''
     load_world)) \<and>
   session_paired (snd (logout (Inr ()) load_world)) \<and>
   session_inv (auth_run load_world
     [EvMount, EvLogin (Inr \<lparr>token = ''t1'', response_user = alice\<rparr>) ''alice'' ''secret'',
      EvLogout (Inl (Err None))])"
  using session_invariant_kept
    [of load_world "Inr \<lparr>token = ''t1'', response_user = alice\<rparr>" "''alice''" "''secret''"
        "Inr ()"
        "[EvMount, EvLogin (Inr \<lparr>token = ''t1'', response_user = alice\<rparr>) ''alice'' ''secret'',
          EvLogout (Inl (Err None))]"]
  by (simp add: load_world_def session_inv_def)

section \<open>Properties of the transfer page\<close>

text \<open>
  C6. Form values whose destination base is the source base fail validation: the schema
  reports the \<open>toBase\<close> rule, the form is not valid, and submitting it does not reach
  \<open>onSubmit\<close> (nothing changes).
\<close>

theorem same_base_fails_validation:
  assumes "toBase (form_values w) = fromBase (form_values w)"
  shows "\<not> isValid (form_values w) \<and>
         (''toBase'', Message ''To Base must be different from From Base'')
            \<in> set (TransferSchema (form_values w)) \<and>
         handleSubmit outcome w = w"
  using assms by (simp add: isValid_def handleSubmit_def TransferSchema_def)

theorem same_base_fails_validation_witness:
  "toBase (form_values (setFieldValue (\<lambda>v. v\<lparr>toBase := ''Base Alpha''\<rparr>) (transfer_page ''a1'' 5)))
     = fromBase (form_values
         (setFieldValue (\<lambda>v. v\<lparr>toBase := ''Base Alpha''\<rparr>) (transfer_page ''a1'' 5))) \<and>
   \<not> isValid (form_values
         (setFieldValue (\<lambda>v. v\<lparr>toBase := ''Base Alpha''\<rparr>) (transfer_page ''a1'' 5))) \<and>
   handleSubmit (Inr \<lparr>transfer_id = ''tr9'', transfer_quantity = 5, assetName = ''Rifle''\<rparr>)
     (setFieldValue (\<lambda>v. v\<lparr>toBase := ''Base Alpha''\<rparr>) (transfer_page ''a1'' 5))
     = setFieldValue (\<lambda>v. v\<lparr>toBase := ''Base Alpha''\<rparr>) (transfer_page ''a1'' 5)"
  using same_base_fails_validation
    [of "setFieldValue (\<lambda>v. v\<lparr>toBase := ''Base Alpha''\<rparr>) (transfer_page ''a1'' 5)"
        "Inr \<lparr>transfer_id = ''tr9'', transfer_quantity = 5, assetName = ''Rifle''\<rparr>"]
  by (simp add: transfer_page_a1_eval setFieldValue_def)

lemma onSubmit_rejected:
  assumes "selectedAsset w = Some a" and "available a < to_number (quantity vals)"
  shows "onSubmit outcome vals w =
           w\<lparr>isSubmitting := False,
             toasts := toasts w @
               [ToastError [Txt ''Cannot transfer more than available quantity ('',
                            Num (available a), Txt '')'']]\<rparr>"
  using assms
  by (simp add: onSubmit_def Let_def setIsSubmitting_def toast_error_def)

text \<open>
  C7. With an asset selected, submitting a quantity above its available quantity is
  rejected in the handler: no remote request is issued (through \<open>onSubmit\<close> directly or
  through the form's \<open>handleSubmit\<close>), the error toast naming the available quantity is
  shown, and there is no navigation and no notification.
\<close>

theorem excess_quantity_rejected_before_request:
  assumes "selectedAsset w = Some a" and "available a < to_number (quantity vals)"
  shows "requests (onSubmit outcome vals w) = requests w \<and>
         toasts (onSubmit outcome vals w) =
           toasts w @ [ToastError [Txt ''Cannot transfer more than available quantity ('',
                                   Num (available a), Txt '')'']] \<and>
         navigations (onSubmit outcome vals w) = navigations w \<and>
         notifications (onSubmit outcome vals w) = notifications w \<and>
         \<not> isSubmitting (onSubmit outcome vals w) \<and>
         requests (handleSubmit outcome (w\<lparr>form_values := vals\<rparr>)) = requests w"
proof -
  have sel: "selectedAsset (w\<lparr>form_values := vals\<rparr>) = Some a"
    using assms(1) by simp
  have "requests (handleSubmit outcome (w\<lparr>form_values := vals\<rparr>)) = requests w"
    by (simp add: handleSubmit_def onSubmit_rejected [OF sel assms(2)])
  then show ?thesis
    by (simp add: onSubmit_rejected [OF assms])
qed

theorem excess_quantity_rejected_before_request_witness:
  "selectedAsset (transfer_page ''a1'' 5) = Some rifles \<and>
   available rifles = 3 \<and>
   quantity (form_values (transfer_page ''a1'' 5)) = Some 5 \<and>
   available rifles < to_number (quantity (form_values (transfer_page ''a1'' 5))) \<and>
   isValid (form_values (transfer_page ''a1'' 5)) \<and>
   requests (onSubmit (Inr \<lparr>transfer_id = ''tr9'', transfer_quantity = 5, assetName = ''Rifle''\<rparr>)
      (form_values (transfer_page ''a1'' 5)) (transfer_page ''a1'' 5))
     = [AuthLogin ''alice'' ''secret'', GetAssets 100] \<and>
   toasts (onSubmit (Inr \<lparr>transfer_id = ''tr9'', transfer_quantity = 5, assetName = ''Rifle''\<rparr>)
      (form_values (transfer_page ''a1'' 5)) (transfer_page ''a1'' 5))
     = [ToastError [Txt ''Cannot transfer more than available quantity ('', Num 3, Txt '')'']]"
  using excess_quantity_rejected_before_request
    [of "transfer_page ''a1'' 5" rifles "form_values (transfer_page ''a1'' 5)"
        "Inr \<lparr>transfer_id = ''tr9'', transfer_quantity = 5, assetName = ''Rifle''\<rparr>"]
  by (simp add: transfer_page_a1_eval rifles_def to_number_def isValid_def TransferSchema_def
      isInteger_def)

lemma onSubmit_unselected:
  assumes "selectedAsset w = None"
  shows "onSubmit outcome vals w =
           setIsSubmitting False (onSubmit_create outcome vals (setIsSubmitting True w))"
  using assms by (simp add: onSubmit_def Let_def setIsSubmitting_def)

lemma requests_onSubmit_create:
  "requests (onSubmit_create outcome vals w) = requests w @ [CreateTransfer vals]"
  by (cases outcome)
     (simp_all add: onSubmit_create_def Let_def request_def addNotification_def
        toast_success_def toast_error_def router_push_def)

text \<open>
  C10. With no asset selected, \<open>onSubmit\<close> makes no availability comparison: it goes
  straight to the creation, so the remote call is issued with whatever values it is
  given, and submitting a valid form issues it with the form's values. No bound on the
  quantity is assumed, so this holds when the quantity is above the available quantity
  of the asset the form names (below: one \<open>trucks\<close> requested, none available). The
  \<open>min\<close> and \<open>max\<close> attributes of the quantity input belong to the markup and are not
  part of the handler.
\<close>

theorem no_selected_asset_skips_availability_check:
  assumes "selectedAsset w = None" and "isValid (form_values w)"
  shows "onSubmit outcome vals w =
           setIsSubmitting False (onSubmit_create outcome vals (setIsSubmitting True w)) \<and>
         requests (onSubmit outcome vals w) = requests w @ [CreateTransfer vals] \<and>
         requests (handleSubmit outcome w) = requests w @ [CreateTransfer (form_values w)]"
proof -
  have "requests (onSubmit outcome v w) = requests w @ [CreateTransfer v]" for v
    by (simp add: onSubmit_unselected [OF assms(1)] requests_onSubmit_create
        setIsSubmitting_def)
  then show ?thesis
    using assms(2) by (simp add: onSubmit_unselected [OF assms(1)] handleSubmit_def)
qed

theorem no_selected_asset_skips_availability_check_witness:
  "selectedAsset (transfer_page ''a2'' 1) = None \<and>
   isValid (form_values (transfer_page ''a2'' 1)) \<and>
   asset (form_values (transfer_page ''a2'' 1)) = asset_id trucks \<and>
   available trucks < to_number (quantity (form_values (transfer_page ''a2'' 1))) \<and>
   requests
     (handleSubmit (Inr \<lparr>transfer_id = ''tr9'', transfer_quantity = 1, assetName = ''Truck''\<rparr>)
        (transfer_page ''a2'' 1))
     = [AuthLogin ''alice'' ''secret'', GetAssets 100,
        CreateTransfer \<lparr>asset = ''a2'', fromBase = ''Base Alpha'', toBase = ''Base Bravo'',
                        quantity = Some 1, form_notes = []\<rparr>]"
  using no_selected_asset_skips_availability_check
    [of "transfer_page ''a2'' 1"
        "Inr \<lparr>transfer_id = ''tr9'', transfer_quantity = 1, assetName = ''Truck''\<rparr>"
        "form_values (transfer_page ''a2'' 1)"]
  by (simp add: transfer_page_a2_eval trucks_def to_number_def isValid_def TransferSchema_def
      isInteger_def)

end
